theory Spec2Isabelle
  imports Main "HOL-Library.AList"
begin

section \<open>Values, threads and the wrapped context type\<close>

text \<open>
  The module \<^verbatim>\<open>pyomo/common/multithread.py\<close> defines two proxy classes,
  \<^verbatim>\<open>MultiThreadWrapper\<close> and \<^verbatim>\<open>MultiThreadWrapperWithMain\<close>. Both forward attribute
  access and the \<^verbatim>\<open>with\<close> protocol to an instance of a wrapped context type that is
  looked up in a \<^verbatim>\<open>defaultdict\<close> keyed by \<^verbatim>\<open>threading.get_ident()\<close>.

  Python values are modelled by the datatype below. An object of the wrapped type is a
  reference \<open>VObj a\<close>, so that two values denote the same object exactly when they are
  equal. The \<^verbatim>\<open>defaultdict(base)\<close> owned by a proxy is the value \<open>VDefaultDict m\<close>, an
  association list in insertion order; it is held by value, since the only code that
  updates it is the subscript \<^verbatim>\<open>self.__mtdict[id]\<close> of the proxy that owns it.
\<close>

type_synonym ident = nat
type_synonym addr = nat

datatype val =
    VNone
  | VBool bool
  | VInt int
  | VStr string
  | VObj addr
  | VDefaultDict "(ident \<times> val) list"

text \<open>
  The calling thread is ambient in Python; here it is an explicit argument. \<open>get_ident\<close>
  is the result of \<^verbatim>\<open>threading.get_ident()\<close> and \<open>on_main\<close> is the truth value of
  \<^verbatim>\<open>current_thread() is main_thread()\<close>.
\<close>

record thread =
  get_ident :: ident
  on_main :: bool

text \<open>
  The wrapped context type is a parameter of both classes. Its operations act on a
  world \<open>'w\<close> (the state of all context objects) and either return a value or raise an
  exception \<open>'e\<close>; the world is returned in both cases, since a call may have had effects
  before it raised.
  \<^item> \<open>base\<close> is the call \<^verbatim>\<open>base()\<close>;
  \<^item> \<open>py_getattr x a\<close> is \<^verbatim>\<open>getattr(x, a)\<close>, \<open>py_setattr x a v\<close> is \<^verbatim>\<open>setattr(x, a, v)\<close>;
  \<^item> \<open>py_enter x\<close> is \<^verbatim>\<open>x.__enter__()\<close> and \<open>py_exit x et ev tb\<close> is
    \<^verbatim>\<open>x.__exit__(et, ev, tb)\<close>;
  \<^item> \<open>py_getitem d i\<close> is the subscript \<^verbatim>\<open>d[i]\<close> on a value that is not the proxy's
    \<^verbatim>\<open>defaultdict\<close> (reached only when the mapping attribute has been overwritten).
\<close>

record ('e, 'w) ctx_ops =
  base :: "'w \<Rightarrow> ('e + val) \<times> 'w"
  py_getattr :: "val \<Rightarrow> string \<Rightarrow> 'w \<Rightarrow> ('e + val) \<times> 'w"
  py_setattr :: "val \<Rightarrow> string \<Rightarrow> val \<Rightarrow> 'w \<Rightarrow> ('e + unit) \<times> 'w"
  py_enter :: "val \<Rightarrow> 'w \<Rightarrow> ('e + val) \<times> 'w"
  py_exit :: "val \<Rightarrow> val \<Rightarrow> val \<Rightarrow> val \<Rightarrow> 'w \<Rightarrow> ('e + val) \<times> 'w"
  py_getitem :: "val \<Rightarrow> ident \<Rightarrow> 'w \<Rightarrow> ('e + val) \<times> 'w"

section \<open>The proxy objects\<close>

text \<open>
  The instance dictionary of a \<^verbatim>\<open>MultiThreadWrapper\<close> holds one attribute, the
  name-mangled \<^verbatim>\<open>_MultiThreadWrapper__mtdict\<close>; a \<^verbatim>\<open>MultiThreadWrapperWithMain\<close>
  extends it with \<^verbatim>\<open>main_thread\<close>. The record extension mirrors the inheritance, and
  the methods of the base class are defined on the record scheme so that the subclass
  can call them through \<^verbatim>\<open>super()\<close>.
\<close>

record mtw =
  mtdict :: val

record mtw_main = mtw +
  main_thread :: val

definition mtdict_name :: string where
  "mtdict_name = ''_MultiThreadWrapper__mtdict''"

definition main_thread_name :: string where
  "main_thread_name = ''main_thread''"

text \<open>
  The subscript \<^verbatim>\<open>self.__mtdict[id]\<close>. On a \<^verbatim>\<open>defaultdict(base)\<close> a present key
  returns its value; a missing key calls \<^verbatim>\<open>base()\<close>, stores the result under the key
  and returns it, and stores nothing when \<^verbatim>\<open>base()\<close> raises.
\<close>

definition mtdict_getitem ::
  "('e, 'w) ctx_ops \<Rightarrow> ident \<Rightarrow> 'a mtw_scheme \<Rightarrow> 'w \<Rightarrow> ('e + val) \<times> 'a mtw_scheme \<times> 'w" where
  "mtdict_getitem ops i p w =
     (case mtdict p of
        VDefaultDict m \<Rightarrow>
          (case map_of m i of
             Some v \<Rightarrow> (Inr v, p, w)
           | None \<Rightarrow>
               (case base ops w of
                  (Inl e, w') \<Rightarrow> (Inl e, p, w')
                | (Inr v, w') \<Rightarrow> (Inr v, p\<lparr>mtdict := VDefaultDict (m @ [(i, v)])\<rparr>, w')))
      | d \<Rightarrow> (case py_getitem ops d i w of (r, w') \<Rightarrow> (r, p, w')))"

subsection \<open>MultiThreadWrapper\<close>

text \<open>\<^verbatim>\<open>__init__\<close>: \<^verbatim>\<open>self.__mtdict = defaultdict(base)\<close>; \<^verbatim>\<open>base\<close> is not called.\<close>

definition MTW_init :: mtw where
  "MTW_init = \<lparr>mtdict = VDefaultDict []\<rparr>"

text \<open>\<^verbatim>\<open>__getattr__\<close>: \<^verbatim>\<open>return getattr(self.__mtdict[id], attr)\<close>.\<close>

definition MTW_getattr ::
  "('e, 'w) ctx_ops \<Rightarrow> thread \<Rightarrow> string \<Rightarrow> 'a mtw_scheme \<Rightarrow> 'w
     \<Rightarrow> ('e + val) \<times> 'a mtw_scheme \<times> 'w" where
  "MTW_getattr ops t attr p w =
     (case mtdict_getitem ops (get_ident t) p w of
        (Inl e, p', w') \<Rightarrow> (Inl e, p', w')
      | (Inr inst, p', w') \<Rightarrow>
          (case py_getattr ops inst attr w' of (r, w'') \<Rightarrow> (r, p', w'')))"

text \<open>
  \<^verbatim>\<open>__setattr__\<close>: the mapping name is stored on the proxy with
  \<^verbatim>\<open>object.__setattr__\<close>; every other name is set on the thread's instance.
\<close>

definition MTW_setattr ::
  "('e, 'w) ctx_ops \<Rightarrow> thread \<Rightarrow> string \<Rightarrow> val \<Rightarrow> 'a mtw_scheme \<Rightarrow> 'w
     \<Rightarrow> ('e + unit) \<times> 'a mtw_scheme \<times> 'w" where
  "MTW_setattr ops t attr v p w =
     (if attr = mtdict_name then (Inr (), p\<lparr>mtdict := v\<rparr>, w)
      else
        (case mtdict_getitem ops (get_ident t) p w of
           (Inl e, p', w') \<Rightarrow> (Inl e, p', w')
         | (Inr inst, p', w') \<Rightarrow>
             (case py_setattr ops inst attr v w' of (r, w'') \<Rightarrow> (r, p', w''))))"

text \<open>\<^verbatim>\<open>__enter__\<close>: \<^verbatim>\<open>return self.__mtdict[id].__enter__()\<close>.\<close>

definition MTW_enter ::
  "('e, 'w) ctx_ops \<Rightarrow> thread \<Rightarrow> 'a mtw_scheme \<Rightarrow> 'w \<Rightarrow> ('e + val) \<times> 'a mtw_scheme \<times> 'w" where
  "MTW_enter ops t p w =
     (case mtdict_getitem ops (get_ident t) p w of
        (Inl e, p', w') \<Rightarrow> (Inl e, p', w')
      | (Inr inst, p', w') \<Rightarrow>
          (case py_enter ops inst w' of (r, w'') \<Rightarrow> (r, p', w'')))"

text \<open>
  \<^verbatim>\<open>__exit__\<close>:
  \<^verbatim>\<open>return self.__mtdict[id].__exit__(exc_type, exc_value, traceback)\<close>.
\<close>

definition MTW_exit ::
  "('e, 'w) ctx_ops \<Rightarrow> thread \<Rightarrow> val \<Rightarrow> val \<Rightarrow> val \<Rightarrow> 'a mtw_scheme \<Rightarrow> 'w
     \<Rightarrow> ('e + val) \<times> 'a mtw_scheme \<times> 'w" where
  "MTW_exit ops t exc_type exc_value traceback p w =
     (case mtdict_getitem ops (get_ident t) p w of
        (Inl e, p', w') \<Rightarrow> (Inl e, p', w')
      | (Inr inst, p', w') \<Rightarrow>
          (case py_exit ops inst exc_type exc_value traceback w' of
             (r, w'') \<Rightarrow> (r, p', w'')))"

subsection \<open>MultiThreadWrapperWithMain\<close>

text \<open>
  \<^verbatim>\<open>__init__\<close>: \<^verbatim>\<open>super().__init__(base)\<close>, then \<^verbatim>\<open>self.main_thread = base()\<close>. When
  \<^verbatim>\<open>base()\<close> raises, so does the constructor and there is no proxy.
\<close>

definition WithMain_init :: "('e, 'w) ctx_ops \<Rightarrow> 'w \<Rightarrow> ('e + mtw_main) \<times> 'w" where
  "WithMain_init ops w =
     (case base ops w of
        (Inl e, w') \<Rightarrow> (Inl e, w')
      | (Inr v, w') \<Rightarrow> (Inr \<lparr>mtdict = VDefaultDict [], main_thread = v\<rparr>, w'))"

definition WithMain_getattr ::
  "('e, 'w) ctx_ops \<Rightarrow> thread \<Rightarrow> string \<Rightarrow> mtw_main \<Rightarrow> 'w \<Rightarrow> ('e + val) \<times> mtw_main \<times> 'w" where
  "WithMain_getattr ops t attr p w =
     (if on_main t then
        (case py_getattr ops (main_thread p) attr w of (r, w') \<Rightarrow> (r, p, w'))
      else MTW_getattr ops t attr p w)"

definition WithMain_setattr ::
  "('e, 'w) ctx_ops \<Rightarrow> thread \<Rightarrow> string \<Rightarrow> val \<Rightarrow> mtw_main \<Rightarrow> 'w
     \<Rightarrow> ('e + unit) \<times> mtw_main \<times> 'w" where
  "WithMain_setattr ops t attr v p w =
     (if attr = mtdict_name then MTW_setattr ops t attr v p w
      else if attr = main_thread_name then (Inr (), p\<lparr>main_thread := v\<rparr>, w)
      else if on_main t then
        (case py_setattr ops (main_thread p) attr v w of (r, w') \<Rightarrow> (r, p, w'))
      else MTW_setattr ops t attr v p w)"

definition WithMain_enter ::
  "('e, 'w) ctx_ops \<Rightarrow> thread \<Rightarrow> mtw_main \<Rightarrow> 'w \<Rightarrow> ('e + val) \<times> mtw_main \<times> 'w" where
  "WithMain_enter ops t p w =
     (if on_main t then
        (case py_enter ops (main_thread p) w of (r, w') \<Rightarrow> (r, p, w'))
      else MTW_enter ops t p w)"

definition WithMain_exit ::
  "('e, 'w) ctx_ops \<Rightarrow> thread \<Rightarrow> val \<Rightarrow> val \<Rightarrow> val \<Rightarrow> mtw_main \<Rightarrow> 'w
     \<Rightarrow> ('e + val) \<times> mtw_main \<times> 'w" where
  "WithMain_exit ops t exc_type exc_value traceback p w =
     (if on_main t then
        (case py_exit ops (main_thread p) exc_type exc_value traceback w of
           (r, w') \<Rightarrow> (r, p, w'))
      else MTW_exit ops t exc_type exc_value traceback p w)"

subsection \<open>Attribute reads as Python evaluates them\<close>

text \<open>
  Modelled from the spec: how Python evaluates \<^verbatim>\<open>proxy.attr\<close> is decided by
  \<^verbatim>\<open>object.__getattribute__\<close>, which the classes inherit and which is no code of the
  module. The model follows the claims' words (\<^verbatim>\<open>__getattr__\<close> is only a fallback for
  names not found on the proxy object) and Python's data model: the instance dictionary
  and the class with its bases are searched, and \<^verbatim>\<open>__getattr__\<close> is called only when
  that search fails.

  For a \<^verbatim>\<open>MultiThreadWrapper\<close> described by the record \<open>mtw\<close> the instance dictionary
  holds the mapping attribute. \<open>cls\<close> is what the search finds on the class (its five
  methods and what it inherits from \<^verbatim>\<open>object\<close>); neither class body defines a data
  descriptor, so an instance attribute is never shadowed by the class. The instance
  dictionary itself, from which an attribute can also be deleted, is modelled in a
  section of its own below.
\<close>

definition MTW_read ::
  "(string \<Rightarrow> val option) \<Rightarrow> ('e, 'w) ctx_ops \<Rightarrow> thread \<Rightarrow> string \<Rightarrow> 'a mtw_scheme \<Rightarrow> 'w
     \<Rightarrow> ('e + val) \<times> 'a mtw_scheme \<times> 'w" where
  "MTW_read cls ops t attr p w =
     (if attr = mtdict_name then (Inr (mtdict p), p, w)
      else
        (case cls attr of
           Some v \<Rightarrow> (Inr v, p, w)
         | None \<Rightarrow> MTW_getattr ops t attr p w))"

subsection \<open>Calls and sequential executions\<close>

text \<open>
  The operations on a proxy: a read, a write, and the two halves of the \<^verbatim>\<open>with\<close>
  protocol. \<open>MTW_call\<close> and \<open>WithMain_call\<close> are the calls of the four methods: for
  them \<open>Read attr\<close> is a call of \<^verbatim>\<open>__getattr__\<close>, which Python makes for a read of a
  name that is not resolvable on the proxy itself, and \<open>Write attr v\<close> is a call of
  \<^verbatim>\<open>__setattr__\<close>, which has no return statement and so returns \<^verbatim>\<open>None\<close>.
  \<open>ctx_call\<close> is the same operation performed directly on a context instance.
\<close>

datatype op = Read string | Write string val | Enter | Exit val val val

definition returns_None :: "('e + unit) \<Rightarrow> ('e + val)" where
  "returns_None r = (case r of Inl e \<Rightarrow> Inl e | Inr _ \<Rightarrow> Inr VNone)"

definition ctx_call :: "('e, 'w) ctx_ops \<Rightarrow> val \<Rightarrow> op \<Rightarrow> 'w \<Rightarrow> ('e + val) \<times> 'w" where
  "ctx_call ops inst c w =
     (case c of
        Read attr \<Rightarrow> py_getattr ops inst attr w
      | Write attr v \<Rightarrow> (case py_setattr ops inst attr v w of (r, w') \<Rightarrow> (returns_None r, w'))
      | Enter \<Rightarrow> py_enter ops inst w
      | Exit et ev tb \<Rightarrow> py_exit ops inst et ev tb w)"

definition MTW_call ::
  "('e, 'w) ctx_ops \<Rightarrow> thread \<Rightarrow> op \<Rightarrow> 'a mtw_scheme \<Rightarrow> 'w
     \<Rightarrow> ('e + val) \<times> 'a mtw_scheme \<times> 'w" where
  "MTW_call ops t c p w =
     (case c of
        Read attr \<Rightarrow> MTW_getattr ops t attr p w
      | Write attr v \<Rightarrow>
          (case MTW_setattr ops t attr v p w of (r, p', w') \<Rightarrow> (returns_None r, p', w'))
      | Enter \<Rightarrow> MTW_enter ops t p w
      | Exit et ev tb \<Rightarrow> MTW_exit ops t et ev tb p w)"

definition WithMain_call ::
  "('e, 'w) ctx_ops \<Rightarrow> thread \<Rightarrow> op \<Rightarrow> mtw_main \<Rightarrow> 'w \<Rightarrow> ('e + val) \<times> mtw_main \<times> 'w" where
  "WithMain_call ops t c p w =
     (case c of
        Read attr \<Rightarrow> WithMain_getattr ops t attr p w
      | Write attr v \<Rightarrow>
          (case WithMain_setattr ops t attr v p w of (r, p', w') \<Rightarrow> (returns_None r, p', w'))
      | Enter \<Rightarrow> WithMain_enter ops t p w
      | Exit et ev tb \<Rightarrow> WithMain_exit ops t et ev tb p w)"



definition MTW_access ::
  "(string \<Rightarrow> val option) \<Rightarrow> ('e, 'w) ctx_ops \<Rightarrow> thread \<Rightarrow> op \<Rightarrow> 'a mtw_scheme \<Rightarrow> 'w
     \<Rightarrow> ('e + val) \<times> 'a mtw_scheme \<times> 'w" where
  "MTW_access cls ops t c p w =
     (case c of
        Read attr \<Rightarrow> MTW_read cls ops t attr p w
      | _ \<Rightarrow> MTW_call ops t c p w)"


fun WithMain_run ::
  "('e, 'w) ctx_ops \<Rightarrow> (thread \<times> op) list \<Rightarrow> mtw_main \<Rightarrow> 'w \<Rightarrow> mtw_main \<times> 'w" where
  "WithMain_run ops [] p w = (p, w)"
| "WithMain_run ops ((t, c) # tr) p w =
     (case WithMain_call ops t c p w of (r, p', w') \<Rightarrow> WithMain_run ops tr p' w')"

fun writes_name :: "string \<Rightarrow> op \<Rightarrow> bool" where
  "writes_name n (Write attr v) = (attr = n)"
| "writes_name n c = False"






subsection \<open>The with statement\<close>

text \<open>
  When the body of \<^verbatim>\<open>with x:\<close> raises, Python calls \<^verbatim>\<open>__exit__\<close> with the exception
  triple; the exception is suppressed when the call returns a true value and
  propagates when it returns a false one, and an exception raised by \<^verbatim>\<open>__exit__\<close>
  itself replaces it. \<open>py_bool\<close> is the truth value of a result (an object without
  \<^verbatim>\<open>__bool__\<close> and \<^verbatim>\<open>__len__\<close> is true).
\<close>

fun py_bool :: "val \<Rightarrow> bool" where
  "py_bool VNone = False"
| "py_bool (VBool b) = b"
| "py_bool (VInt n) = (n \<noteq> 0)"
| "py_bool (VStr s) = (s \<noteq> [])"
| "py_bool (VObj a) = True"
| "py_bool (VDefaultDict m) = (m \<noteq> [])"

datatype 'e with_outcome = Suppressed | Propagates | ExitRaised 'e

definition with_outcome :: "('e + val) \<Rightarrow> 'e with_outcome" where
  "with_outcome r =
     (case r of
        Inl e \<Rightarrow> ExitRaised e
      | Inr v \<Rightarrow> if py_bool v then Suppressed else Propagates)"

section \<open>Instrumentation: counting factory calls\<close>

text \<open>
  \<open>counting ops\<close> behaves as \<open>ops\<close> and counts, in a second component of the world,
  how many times \<^verbatim>\<open>base()\<close> has been called.
\<close>

definition counting :: "('e, 'w) ctx_ops \<Rightarrow> ('e, 'w \<times> nat) ctx_ops" where
  "counting ops =
     \<lparr>base = (\<lambda>(w, n). case base ops w of (r, w') \<Rightarrow> (r, (w', Suc n))),
      py_getattr = (\<lambda>x attr (w, n). case py_getattr ops x attr w of (r, w') \<Rightarrow> (r, (w', n))),
      py_setattr =
        (\<lambda>x attr v (w, n). case py_setattr ops x attr v w of (r, w') \<Rightarrow> (r, (w', n))),
      py_enter = (\<lambda>x (w, n). case py_enter ops x w of (r, w') \<Rightarrow> (r, (w', n))),
      py_exit =
        (\<lambda>x et ev tb (w, n). case py_exit ops x et ev tb w of (r, w') \<Rightarrow> (r, (w', n))),
      py_getitem = (\<lambda>d i (w, n). case py_getitem ops d i w of (r, w') \<Rightarrow> (r, (w', n)))\<rparr>"


section \<open>A wrapped context type: plain objects\<close>

text \<open>
  Modelled from the spec: the wrapped context type is not part of the module; the
  example scenario of the specification uses ``a simple counter-context type''. It is
  modelled as a class of plain objects,
  \<^verbatim>\<open>
  class Counter:
      def __init__(self): self.counter = 0
      def __enter__(self): return self
      def __exit__(self, exc_type, exc_value, traceback): return False
  \<close>
  whose instances live in a heap: the object at address \<open>a\<close> is the \<open>a\<close>-th entry, its
  instance dictionary. Reading a missing attribute raises \<^verbatim>\<open>AttributeError\<close>. The model
  covers the attribute names that are not of the form \<^verbatim>\<open>__x__\<close> (those Python resolves
  through the class and \<^verbatim>\<open>object\<close>). On a value that is not such an object an
  attribute access is taken to raise \<^verbatim>\<open>AttributeError\<close>, and a subscript on a value that
  is not a mapping raises \<^verbatim>\<open>TypeError\<close>. The factory is a parameter
  of \<open>obj_ops\<close>: \<open>Counter\<close> is the constructor of the class above, \<open>Tagged\<close> the
  constructor of a class whose instances carry an attribute named \<^verbatim>\<open>main_thread\<close>
  (\<^verbatim>\<open>self.main_thread = 'ctx'\<close>), and \<open>failing\<close> a factory that always raises.
\<close>

datatype exn = AttributeError string | TypeError string | RuntimeError string

type_synonym heap = "(string \<times> val) list list"

definition obj_getattr :: "val \<Rightarrow> string \<Rightarrow> heap \<Rightarrow> (exn + val) \<times> heap" where
  "obj_getattr x attr h =
     (case x of
        VObj a \<Rightarrow>
          (if a < length h then
             (case map_of (h ! a) attr of
                Some v \<Rightarrow> (Inr v, h)
              | None \<Rightarrow> (Inl (AttributeError attr), h))
           else (Inl (AttributeError attr), h))
      | _ \<Rightarrow> (Inl (AttributeError attr), h))"

definition obj_setattr :: "val \<Rightarrow> string \<Rightarrow> val \<Rightarrow> heap \<Rightarrow> (exn + unit) \<times> heap" where
  "obj_setattr x attr v h =
     (case x of
        VObj a \<Rightarrow>
          (if a < length h then (Inr (), h[a := AList.update attr v (h ! a)])
           else (Inl (AttributeError attr), h))
      | _ \<Rightarrow> (Inl (AttributeError attr), h))"

definition obj_enter :: "val \<Rightarrow> heap \<Rightarrow> (exn + val) \<times> heap" where
  "obj_enter x h = (Inr x, h)"

definition obj_exit :: "val \<Rightarrow> val \<Rightarrow> val \<Rightarrow> val \<Rightarrow> heap \<Rightarrow> (exn + val) \<times> heap" where
  "obj_exit x et ev tb h = (Inr (VBool False), h)"

definition obj_getitem :: "val \<Rightarrow> ident \<Rightarrow> heap \<Rightarrow> (exn + val) \<times> heap" where
  "obj_getitem d i h = (Inl (TypeError ''object is not subscriptable''), h)"

definition obj_ops :: "(heap \<Rightarrow> (exn + val) \<times> heap) \<Rightarrow> (exn, heap) ctx_ops" where
  "obj_ops fac =
     \<lparr>base = fac, py_getattr = obj_getattr, py_setattr = obj_setattr,
      py_enter = obj_enter, py_exit = obj_exit, py_getitem = obj_getitem\<rparr>"

definition Counter :: "heap \<Rightarrow> (exn + val) \<times> heap" where
  "Counter h = (Inr (VObj (length h)), h @ [[(''counter'', VInt 0)]])"


definition failing :: "heap \<Rightarrow> (exn + val) \<times> heap" where
  "failing h = (Inl (RuntimeError ''base''), h)"





text \<open>Two threads and the main thread, for the concrete executions below.\<close>

definition thread_A :: thread where
  "thread_A = \<lparr>get_ident = 1, on_main = False\<rparr>"

definition thread_B :: thread where
  "thread_B = \<lparr>get_ident = 2, on_main = False\<rparr>"

definition thread_M :: thread where
  "thread_M = \<lparr>get_ident = 0, on_main = True\<rparr>"

section \<open>The constructor's argument\<close>



section \<open>The proxy as an object with an instance dictionary\<close>

text \<open>
  Modelled from the spec: attribute access on an object is Python's own, inherited from
  \<^verbatim>\<open>object\<close>; it is no code of the module. The definitions of this section follow the
  claims' words (\<^verbatim>\<open>__getattr__\<close> is only a fallback for names not found on the proxy
  object; \<^verbatim>\<open>object.__setattr__\<close> stores a name directly on the proxy) and Python's data
  model:
  \<^item> \<^verbatim>\<open>object.__setattr__(self, attr, value)\<close>, called in lines 15 and 43, stores the
    name in the instance dictionary of the proxy;
  \<^item> \<^verbatim>\<open>object.__getattribute__\<close> finds a name in the instance dictionary or on the
    class (\<open>cls\<close>), and Python calls \<^verbatim>\<open>__getattr__\<close> of the object's class only when
    it finds nothing;
  \<^item> \<^verbatim>\<open>del proxy.attr\<close> is \<^verbatim>\<open>object.__delattr__\<close>, since neither class defines
    \<^verbatim>\<open>__delattr__\<close>: it removes the name from the instance dictionary, and raises
    \<^verbatim>\<open>AttributeError\<close> (the result \<open>None\<close>) when the name is not there.
  The records \<open>mtw\<close> and \<open>mtw_main\<close> describe a proxy whose instance dictionary
  holds its attributes. Here the dictionary is explicit, an association list in
  insertion order, so that a name can also be absent from it.
\<close>

type_synonym inst_dict = "(string \<times> val) list"

definition object_getattribute :: "(string \<Rightarrow> val option) \<Rightarrow> inst_dict \<Rightarrow> string \<Rightarrow> val option" where
  "object_getattribute cls d attr = (case map_of d attr of Some v \<Rightarrow> Some v | None \<Rightarrow> cls attr)"

definition object_setattr :: "inst_dict \<Rightarrow> string \<Rightarrow> val \<Rightarrow> inst_dict" where
  "object_setattr d attr v = AList.update attr v d"


text \<open>
  What a method of the proxy raises: an exception of the wrapped type, or Python's
  \<^verbatim>\<open>RecursionError\<close>. Every call uses one level of the interpreter's stack, and a call
  made when no level is left raises \<^verbatim>\<open>RecursionError\<close>. \<^verbatim>\<open>__getattr__\<close> below takes
  the number of levels left as its first argument; \<open>recursion_limit\<close> is the default of
  \<^verbatim>\<open>sys.getrecursionlimit()\<close>.
\<close>

datatype 'e raised = Raised 'e | RecursionError

definition from_context :: "('e + 'a) \<Rightarrow> ('e raised + 'a)" where
  "from_context r = (case r of Inl e \<Rightarrow> Inl (Raised e) | Inr v \<Rightarrow> Inr v)"


text \<open>
  The two classes. A method reached through \<^verbatim>\<open>super()\<close> still runs on the object it
  was called on, so the class of that object (\<open>self_k\<close>) is passed along: it decides
  which \<^verbatim>\<open>__getattr__\<close> Python calls for a name that is not found.
\<close>

datatype klass = MultiThreadWrapper | MultiThreadWrapperWithMain

text \<open>
  The subscript \<^verbatim>\<open>self.__mtdict[id]\<close> on the value \<open>md\<close> that \<^verbatim>\<open>self.__mtdict\<close> gave,
  by \<open>mtdict_getitem\<close>. The mapping is held by value, so an entry added to it is stored
  back into the dictionary entry that holds the mapping.
\<close>

definition getitem_d ::
  "('e, 'w) ctx_ops \<Rightarrow> val \<Rightarrow> ident \<Rightarrow> inst_dict \<Rightarrow> 'w \<Rightarrow> ('e raised + val) \<times> inst_dict \<times> 'w" where
  "getitem_d ops md i d w =
     (case mtdict_getitem ops i \<lparr>mtdict = md\<rparr> w of
        (r, p', w') \<Rightarrow>
          (from_context r,
           if map_of d mtdict_name = Some md then object_setattr d mtdict_name (mtdict p') else d,
           w'))"

text \<open>
  \<^verbatim>\<open>__getattr__\<close> of both classes (lines 9-11 and 34-37). The expressions
  \<^verbatim>\<open>self.__mtdict\<close> and \<^verbatim>\<open>self.main_thread\<close> are attribute reads themselves: the name
  is looked up, and when it is not found Python calls \<^verbatim>\<open>__getattr__\<close> of the object's
  class with that name, one level deeper.
\<close>

fun getattr_d ::
  "nat \<Rightarrow> klass \<Rightarrow> klass \<Rightarrow> (string \<Rightarrow> val option) \<Rightarrow> ('e, 'w) ctx_ops \<Rightarrow> thread \<Rightarrow> string
     \<Rightarrow> inst_dict \<Rightarrow> 'w \<Rightarrow> ('e raised + val) \<times> inst_dict \<times> 'w" where
  "getattr_d 0 k self_k cls ops t attr d w = (Inl RecursionError, d, w)"
| "getattr_d (Suc n) MultiThreadWrapper self_k cls ops t attr d w =
     (case (case object_getattribute cls d mtdict_name of
              Some v \<Rightarrow> (Inr v, d, w)
            | None \<Rightarrow> getattr_d n self_k self_k cls ops t mtdict_name d w) of
        (Inl e, d', w') \<Rightarrow> (Inl e, d', w')
      | (Inr md, d', w') \<Rightarrow>
          (case getitem_d ops md (get_ident t) d' w' of
             (Inl e, d'', w'') \<Rightarrow> (Inl e, d'', w'')
           | (Inr inst, d'', w'') \<Rightarrow>
               (case py_getattr ops inst attr w'' of
                  (r, w''') \<Rightarrow> (from_context r, d'', w'''))))"
| "getattr_d (Suc n) MultiThreadWrapperWithMain self_k cls ops t attr d w =
     (if on_main t then
        (case (case object_getattribute cls d main_thread_name of
                 Some v \<Rightarrow> (Inr v, d, w)
               | None \<Rightarrow> getattr_d n self_k self_k cls ops t main_thread_name d w) of
           (Inl e, d', w') \<Rightarrow> (Inl e, d', w')
         | (Inr x, d', w') \<Rightarrow>
             (case py_getattr ops x attr w' of (r, w'') \<Rightarrow> (from_context r, d', w'')))
      else getattr_d n MultiThreadWrapper self_k cls ops t attr d w)"

text \<open>
  The attribute read \<^verbatim>\<open>proxy.attr\<close>, by a client or as \<^verbatim>\<open>self.attr\<close> inside a method.
\<close>

definition attr_read ::
  "nat \<Rightarrow> klass \<Rightarrow> (string \<Rightarrow> val option) \<Rightarrow> ('e, 'w) ctx_ops \<Rightarrow> thread \<Rightarrow> string
     \<Rightarrow> inst_dict \<Rightarrow> 'w \<Rightarrow> ('e raised + val) \<times> inst_dict \<times> 'w" where
  "attr_read n self_k cls ops t attr d w =
     (case object_getattribute cls d attr of
        Some v \<Rightarrow> (Inr v, d, w)
      | None \<Rightarrow> getattr_d n self_k self_k cls ops t attr d w)"

text \<open>
  \<^verbatim>\<open>__setattr__\<close>, \<^verbatim>\<open>__enter__\<close> and \<^verbatim>\<open>__exit__\<close> of \<^verbatim>\<open>MultiThreadWrapper\<close>
  (lines 13-26). These methods are not re-entered, so the level their own call uses is
  not counted: \<open>n\<close> is the number of levels left for the attribute reads they make.
\<close>

definition MTW_setattr_d ::
  "nat \<Rightarrow> klass \<Rightarrow> (string \<Rightarrow> val option) \<Rightarrow> ('e, 'w) ctx_ops \<Rightarrow> thread \<Rightarrow> string \<Rightarrow> val
     \<Rightarrow> inst_dict \<Rightarrow> 'w \<Rightarrow> ('e raised + unit) \<times> inst_dict \<times> 'w" where
  "MTW_setattr_d n self_k cls ops t attr v d w =
     (if attr = mtdict_name then (Inr (), object_setattr d attr v, w)
      else
        (case attr_read n self_k cls ops t mtdict_name d w of
           (Inl e, d', w') \<Rightarrow> (Inl e, d', w')
         | (Inr md, d', w') \<Rightarrow>
             (case getitem_d ops md (get_ident t) d' w' of
                (Inl e, d'', w'') \<Rightarrow> (Inl e, d'', w'')
              | (Inr inst, d'', w'') \<Rightarrow>
                  (case py_setattr ops inst attr v w'' of
                     (r, w''') \<Rightarrow> (from_context r, d'', w''')))))"



text \<open>
  \<^verbatim>\<open>__setattr__\<close>, \<^verbatim>\<open>__enter__\<close> and \<^verbatim>\<open>__exit__\<close> of
  \<^verbatim>\<open>MultiThreadWrapperWithMain\<close> (lines 39-57).
\<close>

definition WithMain_setattr_d ::
  "nat \<Rightarrow> (string \<Rightarrow> val option) \<Rightarrow> ('e, 'w) ctx_ops \<Rightarrow> thread \<Rightarrow> string \<Rightarrow> val
     \<Rightarrow> inst_dict \<Rightarrow> 'w \<Rightarrow> ('e raised + unit) \<times> inst_dict \<times> 'w" where
  "WithMain_setattr_d n cls ops t attr v d w =
     (if attr = mtdict_name then
        MTW_setattr_d n MultiThreadWrapperWithMain cls ops t attr v d w
      else if attr = main_thread_name then (Inr (), object_setattr d attr v, w)
      else if on_main t then
        (case attr_read n MultiThreadWrapperWithMain cls ops t main_thread_name d w of
           (Inl e, d', w') \<Rightarrow> (Inl e, d', w')
         | (Inr x, d', w') \<Rightarrow>
             (case py_setattr ops x attr v w' of (r, w'') \<Rightarrow> (from_context r, d', w'')))
      else MTW_setattr_d n MultiThreadWrapperWithMain cls ops t attr v d w)"



text \<open>
  The attribute write \<^verbatim>\<open>proxy.attr = v\<close> calls \<^verbatim>\<open>__setattr__\<close> of the object's class.
\<close>

definition attr_write ::
  "nat \<Rightarrow> klass \<Rightarrow> (string \<Rightarrow> val option) \<Rightarrow> ('e, 'w) ctx_ops \<Rightarrow> thread \<Rightarrow> string \<Rightarrow> val
     \<Rightarrow> inst_dict \<Rightarrow> 'w \<Rightarrow> ('e raised + unit) \<times> inst_dict \<times> 'w" where
  "attr_write n self_k cls ops t attr v d w =
     (case self_k of
        MultiThreadWrapper \<Rightarrow> MTW_setattr_d n self_k cls ops t attr v d w
      | MultiThreadWrapperWithMain \<Rightarrow> WithMain_setattr_d n cls ops t attr v d w)"






section \<open>The specification's routing rule\<close>

text \<open>
  This definition follows the words of the specification, not the code: ``determine the
  calling thread's identity; look up (creating if absent) that thread's private context
  instance; forward the operation to that instance; return its result''. \<open>m\<close> is the
  content of the mapping, \<open>f\<close> the operation to forward. The methods of the module are
  compared with it below.
\<close>

definition on_private_instance ::
  "('e, 'w) ctx_ops \<Rightarrow> ident \<Rightarrow> (val \<Rightarrow> 'w \<Rightarrow> ('e + 'r) \<times> 'w) \<Rightarrow> (ident \<times> val) list
     \<Rightarrow> 'a mtw_scheme \<Rightarrow> 'w \<Rightarrow> ('e + 'r) \<times> 'a mtw_scheme \<times> 'w" where
  "on_private_instance ops i f m p w =
     (case map_of m i of
        Some inst \<Rightarrow> (case f inst w of (r, w') \<Rightarrow> (r, p, w'))
      | None \<Rightarrow>
          (case base ops w of
             (Inl e, w1) \<Rightarrow> (Inl e, p, w1)
           | (Inr inst, w1) \<Rightarrow>
               (case f inst w1 of
                  (r, w') \<Rightarrow> (r, p\<lparr>mtdict := VDefaultDict (m @ [(i, inst)])\<rparr>, w'))))"

section \<open>Routing of single calls\<close>

lemma getitem_dd:
  "mtdict p = VDefaultDict m \<Longrightarrow>
   mtdict_getitem ops i p w =
     (case map_of m i of
        Some v \<Rightarrow> (Inr v, p, w)
      | None \<Rightarrow>
          (case base ops w of
             (Inl e, w') \<Rightarrow> (Inl e, p, w')
           | (Inr v, w') \<Rightarrow> (Inr v, p\<lparr>mtdict := VDefaultDict (m @ [(i, v)])\<rparr>, w')))"
  by (simp add: mtdict_getitem_def)

lemma MTW_getattr_dd:
  "mtdict p = VDefaultDict m \<Longrightarrow>
   MTW_getattr ops t attr p w =
     on_private_instance ops (get_ident t) (\<lambda>inst. py_getattr ops inst attr) m p w"
  by (simp add: MTW_getattr_def getitem_dd on_private_instance_def
      split: option.splits prod.splits sum.splits)

lemma MTW_setattr_dd:
  "mtdict p = VDefaultDict m \<Longrightarrow> attr \<noteq> mtdict_name \<Longrightarrow>
   MTW_setattr ops t attr v p w =
     on_private_instance ops (get_ident t) (\<lambda>inst. py_setattr ops inst attr v) m p w"
  by (simp add: MTW_setattr_def getitem_dd on_private_instance_def
      split: option.splits prod.splits sum.splits)

lemma MTW_enter_dd:
  "mtdict p = VDefaultDict m \<Longrightarrow>
   MTW_enter ops t p w = on_private_instance ops (get_ident t) (py_enter ops) m p w"
  by (simp add: MTW_enter_def getitem_dd on_private_instance_def
      split: option.splits prod.splits sum.splits)

lemma MTW_exit_dd:
  "mtdict p = VDefaultDict m \<Longrightarrow>
   MTW_exit ops t et ev tb p w =
     on_private_instance ops (get_ident t) (\<lambda>inst. py_exit ops inst et ev tb) m p w"
  by (simp add: MTW_exit_def getitem_dd on_private_instance_def
      split: option.splits prod.splits sum.splits)

lemma names_differ: "main_thread_name \<noteq> mtdict_name"
  by (simp add: mtdict_name_def main_thread_name_def)

text \<open>
  Claim C4. \<^verbatim>\<open>MultiThreadWrapper.__setattr__\<close> stores a write of the reserved name
  \<^verbatim>\<open>_MultiThreadWrapper__mtdict\<close> on the proxy itself, without touching any context
  instance, and forwards a write of every other name to the calling thread's private
  instance (created if absent). \<^verbatim>\<open>MultiThreadWrapperWithMain.__setattr__\<close> hands the
  mapping name to the base class, stores \<^verbatim>\<open>main_thread\<close> on the proxy itself, and
  intercepts no other name: any other write goes to the main instance on the main
  thread and to the base class otherwise.
\<close>

theorem C4_reserved_write_interception:
  "MTW_setattr ops t mtdict_name v p w = (Inr (), p\<lparr>mtdict := v\<rparr>, w)
   \<and> (attr \<noteq> mtdict_name \<and> mtdict p = VDefaultDict m \<longrightarrow>
        MTW_setattr ops t attr v p w =
          on_private_instance ops (get_ident t) (\<lambda>inst. py_setattr ops inst attr v) m p w)
   \<and> WithMain_setattr ops t mtdict_name v q w = MTW_setattr ops t mtdict_name v q w
   \<and> WithMain_setattr ops t mtdict_name v q w = (Inr (), q\<lparr>mtdict := v\<rparr>, w)
   \<and> WithMain_setattr ops t main_thread_name v q w = (Inr (), q\<lparr>main_thread := v\<rparr>, w)
   \<and> (attr \<noteq> mtdict_name \<and> attr \<noteq> main_thread_name \<longrightarrow>
        WithMain_setattr ops t attr v q w =
          (if on_main t
           then (case py_setattr ops (main_thread q) attr v w of (r, w') \<Rightarrow> (r, q, w'))
           else MTW_setattr ops t attr v q w))"
  by (simp add: MTW_setattr_dd WithMain_setattr_def)
     (simp add: MTW_setattr_def mtdict_name_def main_thread_name_def)

text \<open>
  Claim C10. A write of the name \<^verbatim>\<open>main_thread\<close> through a
  \<^verbatim>\<open>MultiThreadWrapperWithMain\<close> replaces the main instance held by the proxy, whatever
  thread makes it (\<open>t\<close> is arbitrary, so also a worker); the mapping and the world of
  context instances are left as they were, and nothing is forwarded.
\<close>

theorem C10_main_thread_write:
  "WithMain_setattr ops t main_thread_name v q w = (Inr (), q\<lparr>main_thread := v\<rparr>, w)
   \<and> mtdict (fst (snd (WithMain_setattr ops t main_thread_name v q w))) = mtdict q
   \<and> snd (snd (WithMain_setattr ops t main_thread_name v q w)) = w"
  by (simp add: WithMain_setattr_def mtdict_name_def main_thread_name_def)

lemma MTW_call_dd:
  "mtdict p = VDefaultDict m \<Longrightarrow> \<not> writes_name mtdict_name c \<Longrightarrow>
   MTW_call ops t c p w =
     on_private_instance ops (get_ident t) (\<lambda>inst. ctx_call ops inst c) m p w"
  by (cases c)
     (simp_all add: MTW_call_def ctx_call_def MTW_getattr_dd MTW_setattr_dd MTW_enter_dd
        MTW_exit_dd on_private_instance_def returns_None_def
        split: option.splits prod.splits sum.splits)


lemma WithMain_call_on_main:
  "on_main t \<Longrightarrow> \<not> writes_name mtdict_name c \<Longrightarrow> \<not> writes_name main_thread_name c \<Longrightarrow>
   WithMain_call ops t c q w = (case ctx_call ops (main_thread q) c w of (r, w') \<Rightarrow> (r, q, w'))"
  by (cases c)
     (simp_all add: WithMain_call_def ctx_call_def WithMain_getattr_def WithMain_setattr_def
        WithMain_enter_def WithMain_exit_def split: prod.splits)

lemma WithMain_call_worker:
  "\<not> on_main t \<Longrightarrow> \<not> writes_name main_thread_name c \<Longrightarrow>
   WithMain_call ops t c q w = MTW_call ops t c q w"
  by (cases c)
     (simp_all add: WithMain_call_def MTW_call_def WithMain_getattr_def WithMain_setattr_def
        WithMain_enter_def WithMain_exit_def)

lemma WithMain_call_reserved:
  "WithMain_call ops t (Write mtdict_name v) q w = (Inr VNone, q\<lparr>mtdict := v\<rparr>, w)"
  "WithMain_call ops t (Write main_thread_name v) q w = (Inr VNone, q\<lparr>main_thread := v\<rparr>, w)"
  by (simp_all add: WithMain_call_def WithMain_setattr_def MTW_setattr_def returns_None_def
      names_differ)

lemma getitem_main_thread:
  "main_thread (fst (snd (mtdict_getitem ops i q w))) = main_thread q"
  by (simp add: mtdict_getitem_def split: val.splits option.splits prod.splits sum.splits)

lemma MTW_call_main_thread:
  "main_thread (fst (snd (MTW_call ops t c q w))) = main_thread q"
proof -
  have g: "\<And>r q' w'. mtdict_getitem ops (get_ident t) q w = (r, q', w') \<Longrightarrow>
             main_thread q' = main_thread q"
    using getitem_main_thread [of ops "get_ident t" q w] by simp
  show ?thesis
    by (cases c)
       (auto simp: MTW_call_def MTW_getattr_def MTW_setattr_def MTW_enter_def MTW_exit_def
          dest: g split: prod.splits sum.splits)
qed

lemma WithMain_call_main_thread:
  "\<not> writes_name main_thread_name c \<Longrightarrow>
   main_thread (fst (snd (WithMain_call ops t c q w))) = main_thread q"
proof (cases "on_main t")
  case False
  assume "\<not> writes_name main_thread_name c"
  with False show ?thesis by (simp add: WithMain_call_worker MTW_call_main_thread)
next
  case True
  assume n: "\<not> writes_name main_thread_name c"
  show ?thesis
  proof (cases "writes_name mtdict_name c")
    case False
    with True n show ?thesis by (simp add: WithMain_call_on_main split: prod.splits)
  next
    case True
    then obtain v where "c = Write mtdict_name v" by (cases c) auto
    then show ?thesis by (simp add: WithMain_call_reserved)
  qed
qed

lemma WithMain_run_main_thread:
  "\<forall>(t, c) \<in> set tr. \<not> writes_name main_thread_name c \<Longrightarrow>
   main_thread (fst (WithMain_run ops tr q w)) = main_thread q"
proof (induction tr arbitrary: q w)
  case Nil
  then show ?case by simp
next
  case (Cons x tr)
  obtain t c where x: "x = (t, c)" by (cases x)
  obtain r q' w' where s: "WithMain_call ops t c q w = (r, q', w')"
    by (cases "WithMain_call ops t c q w")
  from Cons.prems x have n: "\<not> writes_name main_thread_name c" by simp
  have "main_thread q' = main_thread q"
    using WithMain_call_main_thread [OF n, of ops t q w] s by simp
  moreover have "main_thread (fst (WithMain_run ops tr q' w')) = main_thread q'"
    using Cons.IH [of q' w'] Cons.prems by simp
  ultimately show ?case using x s by simp
qed

text \<open>
  Claim C6. For an attribute name that is not resolvable on the proxy itself (it is not
  the mapping attribute and the class does not define it), a read through a
  \<^verbatim>\<open>MultiThreadWrapper\<close> looks up the calling thread's private instance under its
  identity, creating it if absent, and returns exactly the result of reading that name
  on that instance.
\<close>

theorem C6_read_forwarding:
  "attr \<noteq> mtdict_name \<Longrightarrow> cls attr = None \<Longrightarrow> mtdict p = VDefaultDict m \<Longrightarrow>
   MTW_read cls ops t attr p w =
     on_private_instance ops (get_ident t) (\<lambda>inst. py_getattr ops inst attr) m p w"
  by (simp add: MTW_read_def MTW_getattr_dd)

text \<open>
  Claim C2, as amended. \<^verbatim>\<open>MultiThreadWrapperWithMain.__init__\<close> calls the factory once
  and stores the result in \<^verbatim>\<open>main_thread\<close>, with an empty mapping. On the main thread a
  call of \<^verbatim>\<open>__getattr__\<close> (a read of a name that is not resolvable on the proxy), a
  write of a non-reserved name, \<^verbatim>\<open>__enter__\<close> and \<^verbatim>\<open>__exit__\<close> are performed on the
  object that \<^verbatim>\<open>main_thread\<close> holds at that moment and leave the proxy, hence the
  mapping, untouched; on any other thread they are performed on the per-identity
  instance of the mapping, as long as the mapping attribute holds its \<^verbatim>\<open>defaultdict\<close>. The object held is the one created at construction as long
  as no call has written the name \<^verbatim>\<open>main_thread\<close>; such a write, which any thread can
  make, replaces it.
\<close>

theorem C2_main_thread_routing:
  "WithMain_init ops w0 =
     (case base ops w0 of
        (Inl e, w1) \<Rightarrow> (Inl e, w1)
      | (Inr v, w1) \<Rightarrow> (Inr \<lparr>mtdict = VDefaultDict [], main_thread = v\<rparr>, w1))
   \<and> ((\<forall>(t, c) \<in> set tr. \<not> writes_name main_thread_name c) \<longrightarrow>
        main_thread (fst (WithMain_run ops tr q w)) = main_thread q)
   \<and> (on_main t \<and> \<not> writes_name mtdict_name c \<and> \<not> writes_name main_thread_name c \<longrightarrow>
        WithMain_call ops t c q w =
          (case ctx_call ops (main_thread q) c w of (r, w') \<Rightarrow> (r, q, w')))
   \<and> (\<not> on_main t \<and> \<not> writes_name mtdict_name c \<and> \<not> writes_name main_thread_name c
        \<and> mtdict q = VDefaultDict m \<longrightarrow>
        WithMain_call ops t c q w =
          on_private_instance ops (get_ident t) (\<lambda>inst. ctx_call ops inst c) m q w)
   \<and> WithMain_call ops t (Write main_thread_name x) q w =
       (Inr VNone, q\<lparr>main_thread := x\<rparr>, w)"
  using WithMain_run_main_thread [of tr ops q w]
  by (simp add: WithMain_init_def WithMain_call_on_main WithMain_call_worker MTW_call_dd
      WithMain_call_reserved)






lemma on_private_instance_present:
  "map_of m i = Some inst \<Longrightarrow>
   on_private_instance ops i f m p w = (fst (f inst w), p, snd (f inst w))"
  by (simp add: on_private_instance_def split: prod.splits)

lemma on_private_instance_created:
  "map_of m i = None \<Longrightarrow> base ops w = (Inr inst, w1) \<Longrightarrow>
   on_private_instance ops i f m p w =
     (fst (f inst w1), p\<lparr>mtdict := VDefaultDict (m @ [(i, inst)])\<rparr>, snd (f inst w1))"
  by (simp add: on_private_instance_def split: prod.splits)

text \<open>
  Claim C5. \<^verbatim>\<open>__enter__\<close> and \<^verbatim>\<open>__exit__\<close> of a proxy are \<^verbatim>\<open>__enter__\<close> and \<^verbatim>\<open>__exit__\<close> of
  the calling thread's instance (the main instance on the main thread of a
  \<^verbatim>\<open>MultiThreadWrapperWithMain\<close>): the exception triple is passed on unchanged and the
  result is returned as it is, so the \<^verbatim>\<open>with\<close> statement suppresses an exception
  through the proxy exactly when the instance's own \<^verbatim>\<open>__exit__\<close> suppresses it.
\<close>

theorem C5_scoped_resource_delegation:
  "(mtdict p = VDefaultDict m \<longrightarrow>
      MTW_enter ops t p w = on_private_instance ops (get_ident t) (py_enter ops) m p w
      \<and> MTW_exit ops t et ev tb p w =
          on_private_instance ops (get_ident t) (\<lambda>inst. py_exit ops inst et ev tb) m p w)
   \<and> (mtdict p = VDefaultDict m \<and> map_of m (get_ident t) = Some inst \<longrightarrow>
        fst (MTW_enter ops t p w) = fst (py_enter ops inst w)
        \<and> fst (MTW_exit ops t et ev tb p w) = fst (py_exit ops inst et ev tb w)
        \<and> with_outcome (fst (MTW_exit ops t et ev tb p w)) =
            with_outcome (fst (py_exit ops inst et ev tb w)))
   \<and> (on_main t \<longrightarrow>
        WithMain_enter ops t q w = (case py_enter ops (main_thread q) w of (r, w') \<Rightarrow> (r, q, w'))
        \<and> WithMain_exit ops t et ev tb q w =
            (case py_exit ops (main_thread q) et ev tb w of (r, w') \<Rightarrow> (r, q, w'))
        \<and> with_outcome (fst (WithMain_exit ops t et ev tb q w)) =
            with_outcome (fst (py_exit ops (main_thread q) et ev tb w)))
   \<and> (\<not> on_main t \<longrightarrow>
        WithMain_enter ops t q w = MTW_enter ops t q w
        \<and> WithMain_exit ops t et ev tb q w = MTW_exit ops t et ev tb q w)"
  by (simp add: MTW_enter_dd MTW_exit_dd on_private_instance_present WithMain_enter_def
      WithMain_exit_def split: prod.splits)

section \<open>Sequential executions\<close>























section \<open>The instance dictionary\<close>





















text \<open>
  On a dictionary that holds both names, the methods of this section are the methods
  on the record \<open>mtw_main\<close>: the two embeddings agree.
\<close>

lemma getitem_in_main:
  "mtdict_getitem ops i \<lparr>mtdict = md, main_thread = x\<rparr> w =
     (case mtdict_getitem ops i \<lparr>mtdict = md\<rparr> w of
        (r, p', w') \<Rightarrow> (r, \<lparr>mtdict = mtdict p', main_thread = x\<rparr>, w'))"
  by (simp add: mtdict_getitem_def split: val.splits option.splits prod.splits sum.splits)

lemma object_setattr_same:
  "map_of d attr = Some v \<Longrightarrow> object_setattr d attr v = d"
  by (simp add: object_setattr_def update_triv)

lemma getattr_d_refines:
  assumes md: "map_of d mtdict_name = Some md" and x: "map_of d main_thread_name = Some x"
  shows "getattr_d (Suc (Suc n)) MultiThreadWrapperWithMain MultiThreadWrapperWithMain
           cls ops t attr d w =
         (case WithMain_getattr ops t attr \<lparr>mtdict = md, main_thread = x\<rparr> w of
            (r, q, w') \<Rightarrow> (from_context r, object_setattr d mtdict_name (mtdict q), w'))"
proof (cases "on_main t")
  case True
  with md x show ?thesis
    by (simp add: WithMain_getattr_def object_getattribute_def object_setattr_same
        split: prod.splits)
next
  case False
  with md show ?thesis
    by (simp add: WithMain_getattr_def MTW_getattr_def object_getattribute_def getitem_d_def
        getitem_in_main from_context_def object_setattr_same
        split: prod.splits sum.splits)
qed

lemma attr_write_refines:
  assumes md: "map_of d mtdict_name = Some md" and x: "map_of d main_thread_name = Some x"
  shows "attr_write n MultiThreadWrapperWithMain cls ops t attr v d w =
         (case WithMain_setattr ops t attr v \<lparr>mtdict = md, main_thread = x\<rparr> w of
            (r, q, w') \<Rightarrow>
              (from_context r,
               object_setattr (object_setattr d mtdict_name (mtdict q))
                 main_thread_name (main_thread q), w'))"
proof -
  have nd: "mtdict_name \<noteq> main_thread_name" using names_differ by simp
  have two: "object_setattr (object_setattr d mtdict_name md) main_thread_name x = d"
    using md x by (simp add: object_setattr_same)
  have x': "map_of (object_setattr d mtdict_name u) main_thread_name = Some x" for u
    using x nd by (simp add: object_setattr_def update_conv')
  have md': "map_of (object_setattr d main_thread_name u) mtdict_name = Some md" for u
    using md nd by (simp add: object_setattr_def update_conv')
  show ?thesis
  proof (cases "attr = mtdict_name")
    case True
    with x' show ?thesis
      by (simp add: attr_write_def WithMain_setattr_d_def MTW_setattr_d_def WithMain_setattr_def
          MTW_setattr_def from_context_def object_setattr_same)
  next
    case False
    note nm = this
    show ?thesis
    proof (cases "attr = main_thread_name")
      case True
      with nm md md' show ?thesis
        by (simp add: attr_write_def WithMain_setattr_d_def WithMain_setattr_def
            from_context_def object_setattr_same)
    next
      case False
      show ?thesis
      proof (cases "on_main t")
        case True
        with nm False md x two show ?thesis
          by (simp add: attr_write_def WithMain_setattr_d_def WithMain_setattr_def
              attr_read_def object_getattribute_def split: prod.splits)
      next
        case nmn: False
        with nm False md x' show ?thesis
          by (simp add: attr_write_def WithMain_setattr_d_def WithMain_setattr_def
              MTW_setattr_d_def MTW_setattr_def attr_read_def object_getattribute_def
              getitem_d_def getitem_in_main from_context_def object_setattr_same
              split: prod.splits sum.splits)
      qed
    qed
  qed
qed

section \<open>Concrete executions\<close>

lemmas eval_defs =
  on_private_instance_def ctx_call_def returns_None_def obj_ops_def Counter_def failing_def
  obj_getattr_def obj_setattr_def obj_enter_def obj_exit_def obj_getitem_def
  thread_A_def thread_B_def thread_M_def mtdict_name_def main_thread_name_def MTW_init_def
  with_outcome_def

theorem C4_reserved_write_interception_witness:
  "MTW_setattr (obj_ops Counter) thread_A ''counter'' (VInt 5) MTW_init [] =
     (Inr (), \<lparr>mtdict = VDefaultDict [(1, VObj 0)]\<rparr>, [[(''counter'', VInt 5)]])
   \<and> WithMain_setattr (obj_ops Counter) thread_M ''counter'' (VInt 5)
       \<lparr>mtdict = VDefaultDict [], main_thread = VObj 0\<rparr> [[(''counter'', VInt 0)]] =
     (Inr (), \<lparr>mtdict = VDefaultDict [], main_thread = VObj 0\<rparr>, [[(''counter'', VInt 5)]])"
  using C4_reserved_write_interception [of "obj_ops Counter" thread_A "VInt 5" MTW_init "[]"
      "''counter''" "[]" "\<lparr>mtdict = VDefaultDict [], main_thread = VObj 0\<rparr>"]
    C4_reserved_write_interception [of "obj_ops Counter" thread_M "VInt 5" MTW_init
      "[[(''counter'', VInt 0)]]"
      "''counter''" "[]" "\<lparr>mtdict = VDefaultDict [], main_thread = VObj 0\<rparr>"]
  by (simp add: eval_defs)

theorem C6_read_forwarding_witness:
  "MTW_read (\<lambda>a. None) (obj_ops Counter) thread_A ''counter'' MTW_init [] =
     (Inr (VInt 0), \<lparr>mtdict = VDefaultDict [(1, VObj 0)]\<rparr>, [[(''counter'', VInt 0)]])
   \<and> MTW_read (\<lambda>a. None) (obj_ops Counter) thread_A ''counter''
       \<lparr>mtdict = VDefaultDict [(1, VObj 0)]\<rparr> [[(''counter'', VInt 5)]] =
     (Inr (VInt 5), \<lparr>mtdict = VDefaultDict [(1, VObj 0)]\<rparr>, [[(''counter'', VInt 5)]])"
  using C6_read_forwarding [of "''counter''" "\<lambda>a. None" MTW_init "[]" "obj_ops Counter"
      thread_A "[]"]
    C6_read_forwarding [of "''counter''" "\<lambda>a. None" "\<lparr>mtdict = VDefaultDict [(1, VObj 0)]\<rparr>"
      "[(1, VObj 0)]" "obj_ops Counter" thread_A "[[(''counter'', VInt 5)]]"]
  by (simp add: eval_defs)

theorem C2_main_thread_routing_witness:
  "WithMain_init (obj_ops Counter) [] =
     (Inr \<lparr>mtdict = VDefaultDict [], main_thread = VObj 0\<rparr>, [[(''counter'', VInt 0)]])
   \<and> WithMain_call (obj_ops Counter) thread_M (Write ''counter'' (VInt 5))
       \<lparr>mtdict = VDefaultDict [], main_thread = VObj 0\<rparr> [[(''counter'', VInt 0)]] =
     (Inr VNone, \<lparr>mtdict = VDefaultDict [], main_thread = VObj 0\<rparr>, [[(''counter'', VInt 5)]])
   \<and> WithMain_call (obj_ops Counter) thread_A (Write ''counter'' (VInt 9))
       \<lparr>mtdict = VDefaultDict [], main_thread = VObj 0\<rparr> [[(''counter'', VInt 0)]] =
     (Inr VNone, \<lparr>mtdict = VDefaultDict [(1, VObj 1)], main_thread = VObj 0\<rparr>,
      [[(''counter'', VInt 0)], [(''counter'', VInt 9)]])
   \<and> main_thread (fst (WithMain_run (obj_ops Counter)
        [(thread_A, Write ''counter'' (VInt 9)), (thread_M, Write ''counter'' (VInt 5))]
        \<lparr>mtdict = VDefaultDict [], main_thread = VObj 0\<rparr> [[(''counter'', VInt 0)]])) = VObj 0
   \<and> WithMain_call (obj_ops Counter) thread_M (Write main_thread_name (VObj 7))
       \<lparr>mtdict = VDefaultDict [], main_thread = VObj 0\<rparr> [[(''counter'', VInt 0)]] =
     (Inr VNone, \<lparr>mtdict = VDefaultDict [], main_thread = VObj 7\<rparr>, [[(''counter'', VInt 0)]])"
  using C2_main_thread_routing [of "obj_ops Counter" "[]"
      "[(thread_A, Write ''counter'' (VInt 9)), (thread_M, Write ''counter'' (VInt 5))]"
      "\<lparr>mtdict = VDefaultDict [], main_thread = VObj 0\<rparr>" "[[(''counter'', VInt 0)]]"
      thread_M "Write ''counter'' (VInt 5)" "[]" "VObj 7"]
    C2_main_thread_routing [of "obj_ops Counter" "[]" "[]"
      "\<lparr>mtdict = VDefaultDict [], main_thread = VObj 0\<rparr>" "[[(''counter'', VInt 0)]]"
      thread_A "Write ''counter'' (VInt 9)" "[]" "VObj 7"]
  by (simp add: eval_defs)

theorem C5_scoped_resource_delegation_witness:
  "MTW_enter (obj_ops Counter) thread_A MTW_init [] =
     (Inr (VObj 0), \<lparr>mtdict = VDefaultDict [(1, VObj 0)]\<rparr>, [[(''counter'', VInt 0)]])
   \<and> MTW_exit (obj_ops Counter) thread_A VNone VNone VNone
       \<lparr>mtdict = VDefaultDict [(1, VObj 0)]\<rparr> [[(''counter'', VInt 0)]] =
     (Inr (VBool False), \<lparr>mtdict = VDefaultDict [(1, VObj 0)]\<rparr>, [[(''counter'', VInt 0)]])
   \<and> with_outcome (fst (MTW_exit (obj_ops Counter) thread_A (VStr ''ValueError'') (VObj 7) (VObj 8)
       \<lparr>mtdict = VDefaultDict [(1, VObj 0)]\<rparr> [[(''counter'', VInt 0)]])) = Propagates
   \<and> WithMain_enter (obj_ops Counter) thread_M
       \<lparr>mtdict = VDefaultDict [], main_thread = VObj 0\<rparr> [[(''counter'', VInt 0)]] =
     (Inr (VObj 0), \<lparr>mtdict = VDefaultDict [], main_thread = VObj 0\<rparr>, [[(''counter'', VInt 0)]])"
  using C5_scoped_resource_delegation [of MTW_init "[]" "obj_ops Counter" thread_A "[]"
      VNone VNone VNone "VObj 0" "\<lparr>mtdict = VDefaultDict [], main_thread = VObj 0\<rparr>"]
    C5_scoped_resource_delegation [of "\<lparr>mtdict = VDefaultDict [(1, VObj 0)]\<rparr>" "[(1, VObj 0)]"
      "obj_ops Counter" thread_A "[[(''counter'', VInt 0)]]"
      VNone VNone VNone "VObj 0" "\<lparr>mtdict = VDefaultDict [], main_thread = VObj 0\<rparr>"]
    C5_scoped_resource_delegation [of "\<lparr>mtdict = VDefaultDict [(1, VObj 0)]\<rparr>" "[(1, VObj 0)]"
      "obj_ops Counter" thread_A "[[(''counter'', VInt 0)]]"
      "VStr ''ValueError''" "VObj 7" "VObj 8" "VObj 0"
      "\<lparr>mtdict = VDefaultDict [], main_thread = VObj 0\<rparr>"]
    C5_scoped_resource_delegation [of "\<lparr>mtdict = VDefaultDict [(1, VObj 0)]\<rparr>" "[(1, VObj 0)]"
      "obj_ops Counter" thread_M "[[(''counter'', VInt 0)]]"
      VNone VNone VNone "VObj 0" "\<lparr>mtdict = VDefaultDict [], main_thread = VObj 0\<rparr>"]
  by (simp add: eval_defs)

lemmas exec_defs =
  MTW_access_def MTW_read_def MTW_call_def MTW_getattr_def MTW_setattr_def MTW_enter_def
  MTW_exit_def mtdict_getitem_def counting_def



theorem C2_replaced_main_counterexample:
  "WithMain_init (obj_ops Counter) [] =
     (Inr \<lparr>mtdict = VDefaultDict [], main_thread = VObj 0\<rparr>, [[(''counter'', VInt 0)]])
   \<and> WithMain_run (obj_ops Counter)
       [(thread_A, Write ''counter'' (VInt 77)), (thread_A, Write main_thread_name (VObj 1))]
       \<lparr>mtdict = VDefaultDict [], main_thread = VObj 0\<rparr> [[(''counter'', VInt 0)]] =
     (\<lparr>mtdict = VDefaultDict [(1, VObj 1)], main_thread = VObj 1\<rparr>,
      [[(''counter'', VInt 0)], [(''counter'', VInt 77)]])
   \<and> WithMain_call (obj_ops Counter) thread_M (Read ''counter'')
       \<lparr>mtdict = VDefaultDict [(1, VObj 1)], main_thread = VObj 1\<rparr>
       [[(''counter'', VInt 0)], [(''counter'', VInt 77)]] =
     (Inr (VInt 77), \<lparr>mtdict = VDefaultDict [(1, VObj 1)], main_thread = VObj 1\<rparr>,
      [[(''counter'', VInt 0)], [(''counter'', VInt 77)]])"
  by (simp add: WithMain_init_def WithMain_call_def WithMain_getattr_def WithMain_setattr_def
      exec_defs eval_defs)












end
